theory Spec2Isabelle
  imports Complex_Main "HOL-Library.Sublist"
begin

section \<open>Python values used by pdfgen.py\<close>

text \<open>
  Python text (\<open>str\<close>) is modelled as a list of Latin-1 code points, one \<open>char\<close> per
  code point below 256; \<open>len\<close> is \<open>length\<close>. This is the text that
  \<open>Page.get_stream_bytes\<close> can encode (\<open>.encode("latin1")\<close>). Byte strings (\<open>bytes\<close>) are
  lists of \<open>char\<close> as well, one per byte.
\<close>

type_synonym str = string
type_synonym bytes = string

text \<open>The exceptions raised in pdfgen.py, each with its message.\<close>

datatype error =
  ValueError str
| TypeError str
| FileNotFoundError str
| ZeroDivisionError

subsection \<open>Decimal text of integers\<close>

definition digit_char :: "nat \<Rightarrow> char" where
  "digit_char d = ''0123456789'' ! (d mod 10)"

text \<open>\<open>str(n)\<close> for a non-negative integer.\<close>

fun str_nat :: "nat \<Rightarrow> str" where
  "str_nat n = (if n < 10 then [digit_char n] else str_nat (n div 10) @ [digit_char (n mod 10)])"

declare str_nat.simps [simp del]

text \<open>\<open>str(i)\<close> for an integer.\<close>

definition str_int :: "int \<Rightarrow> str" where
  "str_int i = (if i < 0 then ''-'' @ str_nat (nat (- i)) else str_nat (nat i))"

section \<open>The object store of class PDF\<close>

text \<open>
  A page (class \<open>Page\<close>): the dimensions and paddings are Python numbers, kept here as
  rationals; \<open>text_elements\<close> are the compiled text fragments; an image usage is a name
  with the object number once resolved (\<open>None\<close> before); a link is the tuple
  \<open>(x, y, w, h, uri)\<close>.
\<close>

record pdf =
  objects :: "(nat \<times> bytes) list"

text \<open>\<open>PDF.__init__\<close>: the store starts empty.\<close>

definition PDF_init :: pdf where
  "PDF_init = \<lparr> objects = [] \<rparr>"

text \<open>
  \<open>PDF.add_object\<close>: the object number is the length of the store plus one; the pair of
  number and content is appended, and the number is returned.
\<close>

definition add_object :: "pdf \<Rightarrow> bytes \<Rightarrow> nat \<times> pdf" where
  "add_object d content =
     (let obj_number = length (objects d) + 1
      in (obj_number, d\<lparr>objects := objects d @ [(obj_number, content)]\<rparr>))"

text \<open>A sequence of \<open>add_object\<close> calls, one per content, collecting the numbers returned.\<close>

fun add_objects :: "pdf \<Rightarrow> bytes list \<Rightarrow> nat list \<times> pdf" where
  "add_objects d [] = ([], d)"
| "add_objects d (c # cs) =
     (let (n, d1) = add_object d c; (ns, d2) = add_objects d1 cs in (n # ns, d2))"

section \<open>Object identities\<close>

lemma add_objects_numbers:
  "fst (add_objects d cs) = [length (objects d) + 1 ..< length (objects d) + 1 + length cs]"
proof (induction cs arbitrary: d)
  case Nil
  show ?case by simp
next
  case (Cons c cs)
  let ?k = "length (objects d)"
  have rest: "fst (add_objects (snd (add_object d c)) cs) = [?k + 2 ..< ?k + 2 + length cs]"
    using Cons.IH [of "snd (add_object d c)"] by (simp add: add_object_def)
  have upt: "[?k + 1 ..< ?k + 1 + length (c # cs)] = (?k + 1) # [?k + 2 ..< ?k + 2 + length cs]"
    by (subst upt_rec) simp
  have "fst (add_objects d (c # cs)) = (?k + 1) # fst (add_objects (snd (add_object d c)) cs)"
    by (simp add: add_object_def split_beta)
  with rest upt show ?case by simp
qed

text \<open>
  C5. Each \<open>add_object\<close> call returns the length of the store plus one, and any sequence of
  calls on a new document returns exactly 1, 2, 3, ... in call order (on a document that
  already holds \<open>k\<close> objects: \<open>k + 1, k + 2, ...\<close>): strictly increasing, without gap or reuse.
\<close>

theorem add_object_identities:
  "fst (add_object d c) = length (objects d) + 1
   \<and> fst (add_objects PDF_init cs) = [1 ..< 1 + length cs]
   \<and> fst (add_objects d cs) = [length (objects d) + 1 ..< length (objects d) + 1 + length cs]"
  using add_objects_numbers [of PDF_init cs] add_objects_numbers [of d cs]
  by (simp add: add_object_def PDF_init_def)

end
